theory Spec2Isabelle
  imports Main
begin

section \<open>Strings\<close>

text \<open>
  Strings are lists of characters. Case conversion is the ASCII part of JavaScript's
  \<^verbatim>\<open>toLowerCase\<close> and \<^verbatim>\<open>toUpperCase\<close>: the letters A to Z and a to z are
  mapped, every other character stays as it is.
\<close>

definition toLowerChar :: "char \<Rightarrow> char" where
  "toLowerChar c =
     (case map_of (zip ''ABCDEFGHIJKLMNOPQRSTUVWXYZ'' ''abcdefghijklmnopqrstuvwxyz'') c of
        Some l \<Rightarrow> l
      | None \<Rightarrow> c)"

definition toLowerCase :: "string \<Rightarrow> string" where
  "toLowerCase s = map toLowerChar s"

definition toUpperChar :: "char \<Rightarrow> char" where
  "toUpperChar c =
     (case map_of (zip ''abcdefghijklmnopqrstuvwxyz'' ''ABCDEFGHIJKLMNOPQRSTUVWXYZ'') c of
        Some u \<Rightarrow> u
      | None \<Rightarrow> c)"

definition toUpperCase :: "string \<Rightarrow> string" where
  "toUpperCase s = map toUpperChar s"

fun startsWith :: "string \<Rightarrow> string \<Rightarrow> bool" where
  "startsWith s [] = True"
| "startsWith [] (p # ps) = False"
| "startsWith (c # cs) (p # ps) = (c = p \<and> startsWith cs ps)"

definition endsWith :: "string \<Rightarrow> string \<Rightarrow> bool" where
  "endsWith s suffix = startsWith (rev s) (rev suffix)"

text \<open>\<^verbatim>\<open>s.includes(sub)\<close>: \<open>sub\<close> occurs in \<open>s\<close> as a contiguous piece.\<close>

fun includesStr :: "string \<Rightarrow> string \<Rightarrow> bool" where
  "includesStr [] sub = (sub = [])"
| "includesStr (c # cs) sub = (startsWith (c # cs) sub \<or> includesStr cs sub)"

text \<open>\<^verbatim>\<open>xs.join(sep)\<close> on a list of strings.\<close>

fun joinWith :: "string \<Rightarrow> string list \<Rightarrow> string" where
  "joinWith sep [] = []"
| "joinWith sep [x] = x"
| "joinWith sep (x # y # ys) = x @ sep @ joinWith sep (y # ys)"

definition isSpace :: "char \<Rightarrow> bool" where
  "isSpace c = (c \<in> set [CHR '' '', CHR 0x09, CHR 0x0A, CHR 0x0B, CHR 0x0C, CHR 0x0D])"

definition trim :: "string \<Rightarrow> string" where
  "trim s = rev (dropWhile isSpace (rev (dropWhile isSpace s)))"

definition quoted :: "string \<Rightarrow> string" where
  "quoted s = CHR 0x22 # s @ [CHR 0x22]"

section \<open>The canonical schema shape\<close>

text \<open>
  \<^verbatim>\<open>ColumnDefinition\<close>, \<^verbatim>\<open>TableDefinition\<close> and \<^verbatim>\<open>DbSchema\<close> of the types module.
  The optional \<^verbatim>\<open>references\<close> field is an option. The records are polymorphic in the
  type of the names they carry: the editor works on schemas whose names are strings,
  remote schema discovery stores whatever values the bridge delivered. The fields
  \<^verbatim>\<open>name\<close> and \<^verbatim>\<open>columns\<close> of a table are called \<open>tname\<close> and \<open>tcolumns\<close>, since a
  field name belongs to one record only.
\<close>

record 'a Reference =
  table :: 'a
  column :: 'a

record 'a ColumnDefinition =
  name :: 'a
  type :: 'a
  isPrimaryKey :: bool
  isForeignKey :: bool
  references :: "'a Reference option"

record 'a TableDefinition =
  tname :: 'a
  tcolumns :: "'a ColumnDefinition list"

record 'a DbSchema =
  tables :: "'a TableDefinition list"

section \<open>Join inference on a table drop (\<^verbatim>\<open>handleEditorDrop\<close>, App.tsx)\<close>

record PendingJoin =
  newTable :: "string TableDefinition"
  existingTable :: string
  joinCondition :: string
  isHeuristic :: "bool option"

definition qualifiedName :: "string \<Rightarrow> string \<Rightarrow> string" where
  "qualifiedName t c = quoted t @ ''.'' @ quoted c"

text \<open>\<^verbatim>\<open>c.isForeignKey && c.references?.table === t\<close>\<close>

definition referencesTable :: "string ColumnDefinition \<Rightarrow> string \<Rightarrow> bool" where
  "referencesTable c t =
     (isForeignKey c \<and> (case references c of None \<Rightarrow> False | Some r \<Rightarrow> table r = t))"

text \<open>
  \<^verbatim>\<open>fk.references!.column\<close>, read only from a column that \<open>referencesTable\<close> accepted,
  whose reference is therefore present.
\<close>

definition referencedColumn :: "string ColumnDefinition \<Rightarrow> string" where
  "referencedColumn c = (case references c of None \<Rightarrow> [] | Some r \<Rightarrow> column r)"

text \<open>The three lookups of the loop body: \<^verbatim>\<open>fk\<close>, \<^verbatim>\<open>revFk\<close> and \<^verbatim>\<open>intersect\<close>.\<close>

definition fkOf :: "string TableDefinition \<Rightarrow> string \<Rightarrow> string ColumnDefinition option" where
  "fkOf tableDef existing = find (\<lambda>c. referencesTable c existing) (tcolumns tableDef)"

definition revFkOf ::
  "string TableDefinition option \<Rightarrow> string \<Rightarrow> string ColumnDefinition option" where
  "revFkOf existingDef newName =
     (case existingDef of
        None \<Rightarrow> None
      | Some ed \<Rightarrow> find (\<lambda>c. referencesTable c newName) (tcolumns ed))"

definition intersectOf ::
  "string TableDefinition \<Rightarrow> string TableDefinition option \<Rightarrow> string list" where
  "intersectOf tableDef existingDef =
     filter (\<lambda>c. (case existingDef of
                     None \<Rightarrow> False
                   | Some ed \<Rightarrow> c \<in> set (map (\<lambda>ec. toLowerCase (name ec)) (tcolumns ed)))
                  \<and> (includesStr c ''id'' \<or> includesStr c ''key''))
            (map (\<lambda>c. toLowerCase (name c)) (tcolumns tableDef))"

text \<open>
  One pass of \<^verbatim>\<open>for (const existing of existingTablesInSql)\<close>. The state is the pair
  \<^verbatim>\<open>(bestJoin, bestScore)\<close>; the three \<^verbatim>\<open>if\<close> statements run in the source's order,
  each on the state the one before left.
\<close>

definition joinStep ::
  "string DbSchema \<Rightarrow> string TableDefinition \<Rightarrow> string \<Rightarrow>
   PendingJoin option \<times> int \<Rightarrow> string \<Rightarrow> PendingJoin option \<times> int" where
  "joinStep activeSchema tableDef newName best existing =
     (let existingDef = find (\<lambda>t. tname t = existing) (tables activeSchema);
          s1 = (case fkOf tableDef existing of
                  Some fk \<Rightarrow>
                    (Some \<lparr>newTable = tableDef, existingTable = existing,
                           joinCondition = qualifiedName newName (name fk) @ '' = '' @
                                           qualifiedName existing (referencedColumn fk),
                           isHeuristic = None\<rparr>, 10)
                | None \<Rightarrow> best);
          s2 = (if snd s1 < 10 then
                  (case revFkOf existingDef newName of
                     Some revFk \<Rightarrow>
                       (Some \<lparr>newTable = tableDef, existingTable = existing,
                              joinCondition = qualifiedName existing (name revFk) @ '' = '' @
                                              qualifiedName newName (referencedColumn revFk),
                              isHeuristic = None\<rparr>, 8)
                   | None \<Rightarrow> s1)
                else s1);
          s3 = (if snd s2 < 8 then
                  (case intersectOf tableDef existingDef of
                     i0 # _ \<Rightarrow>
                       (Some \<lparr>newTable = tableDef, existingTable = existing,
                              joinCondition = qualifiedName newName i0 @ '' = '' @
                                              qualifiedName existing i0,
                              isHeuristic = Some True\<rparr>, 2)
                   | [] \<Rightarrow> s2)
                else s2)
      in s3)"

text \<open>The whole loop, from \<^verbatim>\<open>bestJoin = null\<close> and \<^verbatim>\<open>bestScore = -1\<close>.\<close>

definition scanExisting ::
  "string DbSchema \<Rightarrow> string TableDefinition \<Rightarrow> string \<Rightarrow> string list \<Rightarrow>
   PendingJoin option \<times> int" where
  "scanExisting activeSchema tableDef newName existingTablesInSql =
     foldl (joinStep activeSchema tableDef newName) (None, -1) existingTablesInSql"

text \<open>
  The loop body run on the initial state: the join one existing table yields when it is
  the only one scanned, and the score it is given there (\<open>-1\<close> when it yields none).
\<close>

definition soloJoin ::
  "string DbSchema \<Rightarrow> string TableDefinition \<Rightarrow> string \<Rightarrow> string \<Rightarrow> PendingJoin option \<times> int" where
  "soloJoin activeSchema tableDef newName existing =
     joinStep activeSchema tableDef newName (None, -1) existing"

definition tier :: "string DbSchema \<Rightarrow> string TableDefinition \<Rightarrow> string \<Rightarrow> string \<Rightarrow> int" where
  "tier activeSchema tableDef newName existing =
     snd (soloJoin activeSchema tableDef newName existing)"

text \<open>
  \<^verbatim>\<open>Array.from(new Set([...newSql.matchAll(/"?([\w$]+)"?/g)].map(m => m[1])))\<close>:
  the captured groups are the maximal runs of word characters and dollar signs, in text
  order; the set keeps the first occurrence of each.
\<close>

definition isWordChar :: "char \<Rightarrow> bool" where
  "isWordChar c =
     (c \<in> set (''abcdefghijklmnopqrstuvwxyz'' @ ''ABCDEFGHIJKLMNOPQRSTUVWXYZ'' @
               ''0123456789'' @ ''_$''))"

fun wordRuns :: "string \<Rightarrow> string \<Rightarrow> string list" where
  "wordRuns cur [] = (if cur = [] then [] else [cur])"
| "wordRuns cur (c # cs) =
     (if isWordChar c then wordRuns (cur @ [c]) cs
      else if cur = [] then wordRuns [] cs
      else cur # wordRuns [] cs)"

definition setAdd :: "'a list \<Rightarrow> 'a \<Rightarrow> 'a list" where
  "setAdd seen x = (if x \<in> set seen then seen else seen @ [x])"

definition existingTablesInSql :: "string \<Rightarrow> string list" where
  "existingTablesInSql newSql = foldl setAdd [] (wordRuns [] newSql)"

text \<open>
  The body of \<^verbatim>\<open>tableNames.forEach\<close>: a table the schema does not know is passed over;
  a table with a best join adds it to \<^verbatim>\<open>foundJoins\<close>; any other table is appended to
  the text as a statement of its own.
\<close>

definition selectAll :: "string \<Rightarrow> string" where
  "selectAll t = ''SELECT * FROM '' @ quoted t @ '' LIMIT 100;''"

definition dropTable ::
  "string DbSchema \<Rightarrow> string list \<Rightarrow> PendingJoin list \<times> string \<Rightarrow> string \<Rightarrow>
   PendingJoin list \<times> string" where
  "dropTable activeSchema existingTables st newName =
     (case find (\<lambda>t. tname t = newName) (tables activeSchema) of
        None \<Rightarrow> st
      | Some tableDef \<Rightarrow>
          (case fst (scanExisting activeSchema tableDef newName existingTables) of
             Some bestJoin \<Rightarrow> (fst st @ [bestJoin], snd st)
           | None \<Rightarrow> (fst st, snd st @ [CHR 0x0A, CHR 0x0A] @ selectAll newName)))"

datatype DropOutcome = UpdateTabContent string | OpenJoinBuilder "PendingJoin list"

text \<open>
  \<^verbatim>\<open>handleEditorDrop\<close> from the point where the dragged payload has been accepted:
  \<open>content\<close> is the active tab's text, \<open>tableNames\<close> the dragged tables.
\<close>

definition handleEditorDrop ::
  "string DbSchema \<Rightarrow> string \<Rightarrow> string list \<Rightarrow> DropOutcome" where
  "handleEditorDrop activeSchema content tableNames =
     (let newSql = trim content in
      if newSql = [] then
        UpdateTabContent (joinWith [CHR 0x0A, CHR 0x0A] (map selectAll tableNames))
      else
        (let st = foldl (dropTable activeSchema (existingTablesInSql newSql)) ([], newSql) tableNames
         in if fst st \<noteq> [] then OpenJoinBuilder (fst st) else UpdateTabContent (snd st)))"


text \<open>A sample schema: order items referring to orders and to products.\<close>

definition plainColumn :: "string \<Rightarrow> string ColumnDefinition" where
  "plainColumn n =
     \<lparr>name = n, type = ''int'', isPrimaryKey = False, isForeignKey = False, references = None\<rparr>"

definition fkColumn :: "string \<Rightarrow> string \<Rightarrow> string \<Rightarrow> string ColumnDefinition" where
  "fkColumn n t c =
     \<lparr>name = n, type = ''int'', isPrimaryKey = False, isForeignKey = True,
      references = Some \<lparr>table = t, column = c\<rparr>\<rparr>"

definition itemsTable :: "string TableDefinition" where
  "itemsTable =
     \<lparr>tname = ''items'',
      tcolumns = [plainColumn ''id'', fkColumn ''order_id'' ''orders'' ''id'',
                  fkColumn ''product_id'' ''products'' ''id'']\<rparr>"

definition shopSchema :: "string DbSchema" where
  "shopSchema =
     \<lparr>tables = [\<lparr>tname = ''orders'', tcolumns = [plainColumn ''id'']\<rparr>,
                \<lparr>tname = ''products'', tcolumns = [plainColumn ''id'']\<rparr>,
                itemsTable]\<rparr>"

section \<open>JavaScript values\<close>

text \<open>
  What the bridge and the embedded engine deliver is untyped data. A value is undefined,
  null, a boolean, a number, a string, an array or an object; an object is the list of
  its own properties in the order \<^verbatim>\<open>Object.keys\<close> enumerates them. Numbers are
  integers: every number the modelled code inspects is a flag or a count. Reading a
  property reads an own property: members inherited from a prototype (functions such as
  \<^verbatim>\<open>toString\<close>) are not data and are not modelled, and the key \<^verbatim>\<open>__proto__\<close>
  is a key like any other.
\<close>

datatype jsval =
    JUndefined
  | JNull
  | JBool bool
  | JNum int
  | JStr string
  | JArr "jsval list"
  | JObj "(string \<times> jsval) list"

datatype error = TypeError

fun truthy :: "jsval \<Rightarrow> bool" where
  "truthy JUndefined = False"
| "truthy JNull = False"
| "truthy (JBool b) = b"
| "truthy (JNum n) = (n \<noteq> 0)"
| "truthy (JStr s) = (s \<noteq> [])"
| "truthy (JArr xs) = True"
| "truthy (JObj kvs) = True"

text \<open>\<^verbatim>\<open>a || b\<close>\<close>

definition jsOr :: "jsval \<Rightarrow> jsval \<Rightarrow> jsval" where
  "jsOr a b = (if truthy a then a else b)"

fun nullish :: "jsval \<Rightarrow> bool" where
  "nullish JUndefined = True"
| "nullish JNull = True"
| "nullish v = False"

text \<open>Decimal numerals, for array indices used as property keys and for \<^verbatim>\<open>String(n)\<close>.\<close>

definition digitChar :: "nat \<Rightarrow> char" where
  "digitChar d = ''0123456789'' ! (d mod 10)"

function showNat :: "nat \<Rightarrow> string" where
  "showNat n = (if n < 10 then [digitChar n] else showNat (n div 10) @ [digitChar (n mod 10)])"
  by pat_completeness auto
termination
  by (relation "measure (\<lambda>n. n)") auto

definition showInt :: "int \<Rightarrow> string" where
  "showInt i = (if i < 0 then CHR ''-'' # showNat (nat (- i)) else showNat (nat i))"

definition digitValue :: "char \<Rightarrow> nat option" where
  "digitValue c = map_of (zip ''0123456789'' [0, 1, 2, 3, 4, 5, 6, 7, 8, 9]) c"

text \<open>
  The value of a string of decimal digits, most significant first; \<open>None\<close> when
  another character occurs.
\<close>

fun digitsValue :: "nat \<Rightarrow> string \<Rightarrow> nat option" where
  "digitsValue acc [] = Some acc"
| "digitsValue acc (c # cs) =
     (case digitValue c of
        None \<Rightarrow> None
      | Some d \<Rightarrow> digitsValue (10 * acc + d) cs)"

text \<open>
  An array index written as a property key: the canonical numeral of a natural number
  (\<^verbatim>\<open>"0"\<close>, \<^verbatim>\<open>"17"\<close>, but not \<^verbatim>\<open>"01"\<close>).
\<close>

definition indexOfKey :: "string \<Rightarrow> nat option" where
  "indexOfKey k =
     (if k = [] then None
      else case digitsValue 0 k of
             None \<Rightarrow> None
           | Some n \<Rightarrow> if showNat n = k then Some n else None)"

text \<open>
  \<^verbatim>\<open>v[k]\<close> and \<^verbatim>\<open>v.k\<close> on a value that is neither undefined nor null: an own property
  of an object, an element or the length of an array, a character or the length of a
  string, undefined otherwise.
\<close>

fun propOf :: "jsval \<Rightarrow> string \<Rightarrow> jsval" where
  "propOf (JObj kvs) k = (case map_of kvs k of Some v \<Rightarrow> v | None \<Rightarrow> JUndefined)"
| "propOf (JArr xs) k =
     (if k = ''length'' then JNum (int (length xs))
      else case indexOfKey k of
             Some i \<Rightarrow> if i < length xs then xs ! i else JUndefined
           | None \<Rightarrow> JUndefined)"
| "propOf (JStr s) k =
     (if k = ''length'' then JNum (int (length s))
      else case indexOfKey k of
             Some i \<Rightarrow> if i < length s then JStr [s ! i] else JUndefined
           | None \<Rightarrow> JUndefined)"
| "propOf v k = JUndefined"

text \<open>The same read where the source does not guard it: on undefined or null it throws.\<close>

definition getProp :: "jsval \<Rightarrow> string \<Rightarrow> error + jsval" where
  "getProp v k = (if nullish v then Inl TypeError else Inr (propOf v k))"

text \<open>\<^verbatim>\<open>Object.keys\<close> of an object or an array.\<close>

fun jsKeys :: "jsval \<Rightarrow> string list" where
  "jsKeys (JObj kvs) = map fst kvs"
| "jsKeys (JArr xs) = map showNat [0..<length xs]"
| "jsKeys v = []"

text \<open>\<^verbatim>\<open>typeof v === 'object' && v !== null\<close>\<close>

fun isObjectLike :: "jsval \<Rightarrow> bool" where
  "isObjectLike (JObj kvs) = True"
| "isObjectLike (JArr xs) = True"
| "isObjectLike v = False"

text \<open>
  \<^verbatim>\<open>a === b\<close>. Two arrays or two objects are equal only when they are the same
  reference; the values the modelled code compares come from different replies or
  different cells, so there they are never equal.
\<close>

definition strictEq :: "jsval \<Rightarrow> jsval \<Rightarrow> bool" where
  "strictEq a b = (a = b \<and> \<not> isObjectLike a)"

text \<open>\<^verbatim>\<open>String(v)\<close>, as a template literal applies it.\<close>

fun jsToString :: "jsval \<Rightarrow> string" where
  "jsToString JUndefined = ''undefined''"
| "jsToString JNull = ''null''"
| "jsToString (JBool b) = (if b then ''true'' else ''false'')"
| "jsToString (JNum n) = showInt n"
| "jsToString (JStr s) = s"
| "jsToString (JArr xs) = joinWith '','' (map (\<lambda>x. if nullish x then [] else jsToString x) xs)"
| "jsToString (JObj kvs) = ''[object Object]''"

text \<open>
  The number a string denotes, for the integer numerals: white space around an optional
  sign and decimal digits, or nothing but white space (zero). Any other string is not a
  number here (\<open>None\<close>, the source's NaN).
\<close>

definition stringToNumber :: "string \<Rightarrow> int option" where
  "stringToNumber s =
     (let t = trim s in
      if t = [] then Some 0
      else case t of
             c # cs \<Rightarrow>
               if c = CHR ''-'' \<and> cs \<noteq> [] then map_option (\<lambda>n. - int n) (digitsValue 0 cs)
               else if c = CHR ''+'' \<and> cs \<noteq> [] then map_option int (digitsValue 0 cs)
               else map_option int (digitsValue 0 t))"

fun toNumber :: "jsval \<Rightarrow> int option" where
  "toNumber JUndefined = None"
| "toNumber JNull = Some 0"
| "toNumber (JBool b) = Some (if b then 1 else 0)"
| "toNumber (JNum n) = Some n"
| "toNumber (JStr s) = stringToNumber s"
| "toNumber (JArr xs) = stringToNumber (jsToString (JArr xs))"
| "toNumber (JObj kvs) = None"

text \<open>\<^verbatim>\<open>v > 0\<close>\<close>

definition gtZero :: "jsval \<Rightarrow> bool" where
  "gtZero v = (case toNumber v of None \<Rightarrow> False | Some n \<Rightarrow> 0 < n)"

text \<open>Mapping a function that may throw over a list, left to right.\<close>

fun mapE :: "('a \<Rightarrow> error + 'b) \<Rightarrow> 'a list \<Rightarrow> error + 'b list" where
  "mapE f [] = Inr []"
| "mapE f (x # xs) =
     (case f x of
        Inl e \<Rightarrow> Inl e
      | Inr y \<Rightarrow> (case mapE f xs of Inl e \<Rightarrow> Inl e | Inr ys \<Rightarrow> Inr (y # ys)))"

section \<open>The dialect registry (SqlDialects.ts)\<close>

text \<open>
  Of a \<^verbatim>\<open>DialectDefinition\<close>, schema discovery reads the \<^verbatim>\<open>queries\<close> part: the
  statement that lists tables and the two templates that take a table name. The texts
  are the source's, character for character, line breaks and indentation included.
\<close>

record DialectQueries =
  getTables :: string
  getColumns :: "string \<Rightarrow> string"
  getForeignKeys :: "string \<Rightarrow> string"

definition postgres_queries :: DialectQueries where
  "postgres_queries =
     \<lparr>getTables =
        ''SELECT table_name AS \"name\" FROM information_schema.tables WHERE table_schema = 'public' AND table_type = 'BASE TABLE' ORDER BY table_name'',
      getColumns = (\<lambda>t.
        [CHR 0x0A] @
        ''        SELECT '' @ [CHR 0x0A] @
        ''          c.column_name AS \"name\", '' @ [CHR 0x0A] @
        ''          c.data_type AS \"type\", '' @ [CHR 0x0A] @
        ''          (SELECT COUNT(*) > 0 FROM information_schema.table_constraints tc '' @ [CHR 0x0A] @
        ''           JOIN information_schema.key_column_usage kcu ON tc.constraint_name = kcu.constraint_name '' @ [CHR 0x0A] @
        ''           WHERE tc.constraint_type = 'PRIMARY KEY' AND tc.table_name='' @ [CHR 0x27] @ t @ [CHR 0x27] @ '' AND kcu.column_name=c.column_name) as \"pk\" '' @ [CHR 0x0A] @
        ''        FROM information_schema.columns c '' @ [CHR 0x0A] @
        ''        WHERE c.table_name = '' @ [CHR 0x27] @ t @ [CHR 0x27] @ '' AND c.table_schema = 'public'' @ [CHR 0x27] @ [CHR 0x0A] @
        ''        ORDER BY c.ordinal_position''),
      getForeignKeys = (\<lambda>t.
        [CHR 0x0A] @
        ''        SELECT '' @ [CHR 0x0A] @
        ''          kcu.column_name AS \"from\", '' @ [CHR 0x0A] @
        ''          ccu.table_name AS \"table\", '' @ [CHR 0x0A] @
        ''          ccu.column_name AS \"to\" '' @ [CHR 0x0A] @
        ''        FROM information_schema.key_column_usage AS kcu '' @ [CHR 0x0A] @
        ''        JOIN information_schema.table_constraints AS tc ON kcu.constraint_name = tc.constraint_name '' @ [CHR 0x0A] @
        ''        JOIN information_schema.constraint_column_usage AS ccu ON ccu.constraint_name = tc.constraint_name '' @ [CHR 0x0A] @
        ''        WHERE tc.constraint_type = 'FOREIGN KEY' AND kcu.table_name = '' @ [CHR 0x27] @ t @ [CHR 0x27] @ '' AND kcu.table_schema = 'public'' @ [CHR 0x27])\<rparr>"

definition mssql_queries :: DialectQueries where
  "mssql_queries =
     \<lparr>getTables =
        ''SELECT name AS \"name\" FROM sys.tables WHERE is_ms_shipped = 0 ORDER BY name'',
      getColumns = (\<lambda>t.
        [CHR 0x0A] @
        ''        SELECT '' @ [CHR 0x0A] @
        ''          c.name AS \"name\", '' @ [CHR 0x0A] @
        ''          TYPE_NAME(c.system_type_id) as \"type\", '' @ [CHR 0x0A] @
        ''          CONVERT(bit, i.is_primary_key) as \"pk\" '' @ [CHR 0x0A] @
        ''        FROM sys.columns c '' @ [CHR 0x0A] @
        ''        LEFT JOIN sys.index_columns ic ON ic.object_id = c.object_id AND ic.column_id = c.column_id '' @ [CHR 0x0A] @
        ''        LEFT JOIN sys.indexes i ON i.object_id = c.object_id AND i.index_id = ic.index_id AND i.is_primary_key = 1 '' @ [CHR 0x0A] @
        ''        WHERE c.object_id = OBJECT_ID('' @ [CHR 0x27] @ t @ [CHR 0x27] @ '')'' @ [CHR 0x0A] @
        ''        ORDER BY c.column_id''),
      getForeignKeys = (\<lambda>t.
        [CHR 0x0A] @
        ''        SELECT '' @ [CHR 0x0A] @
        ''          cpa.name AS \"from\", '' @ [CHR 0x0A] @
        ''          OBJECT_NAME(f.referenced_object_id) AS \"table\", '' @ [CHR 0x0A] @
        ''          cpr.name AS \"to\" '' @ [CHR 0x0A] @
        ''        FROM sys.foreign_keys AS f '' @ [CHR 0x0A] @
        ''        INNER JOIN sys.foreign_key_columns AS fc ON f.object_id = fc.constraint_object_id '' @ [CHR 0x0A] @
        ''        INNER JOIN sys.columns AS cpa ON fc.parent_object_id = cpa.object_id AND fc.parent_column_id = cpa.column_id '' @ [CHR 0x0A] @
        ''        INNER JOIN sys.columns AS cpr ON fc.referenced_object_id = cpr.object_id AND fc.referenced_column_id = cpr.column_id '' @ [CHR 0x0A] @
        ''        WHERE f.parent_object_id = OBJECT_ID('' @ [CHR 0x27] @ t @ [CHR 0x27] @ '')'')\<rparr>"

definition mysql_queries :: DialectQueries where
  "mysql_queries =
     \<lparr>getTables =
        ''SELECT table_name AS \"name\" FROM information_schema.tables WHERE table_schema = DATABASE()'',
      getColumns = (\<lambda>t.
        ''DESCRIBE '' @ [CHR 0x60] @ t @ [CHR 0x60]),
      getForeignKeys = (\<lambda>t.
        ''SELECT K.COLUMN_NAME AS 'from', K.REFERENCED_TABLE_NAME AS 'table', K.REFERENCED_COLUMN_NAME AS 'to' FROM INFORMATION_SCHEMA.KEY_COLUMN_USAGE AS K WHERE K.TABLE_SCHEMA = SCHEMA() AND K.TABLE_NAME = '' @ [CHR 0x27] @ t @ [CHR 0x27] @ '' AND K.REFERENCED_TABLE_NAME IS NOT NULL;'')\<rparr>"

definition sqlite_queries :: DialectQueries where
  "sqlite_queries =
     \<lparr>getTables =
        ''SELECT name FROM sqlite_master WHERE type='table' AND name NOT LIKE 'sqlite_%' ORDER BY name'',
      getColumns = (\<lambda>t.
        ''PRAGMA table_info(\"'' @ t @ ''\")''),
      getForeignKeys = (\<lambda>t.
        ''PRAGMA foreign_key_list(\"'' @ t @ ''\")'')\<rparr>"

definition mongodb_queries :: DialectQueries where
  "mongodb_queries =
     \<lparr>getTables =
        [],
      getColumns = (\<lambda>t.
        []),
      getForeignKeys = (\<lambda>t.
        [])\<rparr>"

definition parquet_queries :: DialectQueries where
  "parquet_queries =
     \<lparr>getTables =
        [],
      getColumns = (\<lambda>t.
        []),
      getForeignKeys = (\<lambda>t.
        [])\<rparr>"

text \<open>\<^verbatim>\<open>DialectRegistry[tag]\<close>: the entry stored under a tag, if there is one.\<close>

definition DialectRegistry :: "string \<Rightarrow> DialectQueries option" where
  "DialectRegistry tag =
     map_of [(''postgres'', postgres_queries), (''mssql'', mssql_queries),
             (''mysql'', mysql_queries), (''sqlite'', sqlite_queries),
             (''mongodb'', mongodb_queries), (''parquet'', parquet_queries)] tag"

section \<open>The remote bridge (\<^verbatim>\<open>executeRemoteQuery\<close>, muulService)\<close>

text \<open>
  A credential carries its id and an optional engine name. The host's
  \<^verbatim>\<open>window.externalMessage.send\<close> may be missing (\<open>None\<close>). When present it is
  given the request, of which the model keeps the credential id and the SQL text, and
  the awaited call settles: it resolves with a reply or rejects (or throws) with a
  reason, either of them any value. The request id is a time stamp; the reply is taken
  to depend on the credential and the SQL text only.
\<close>

record CredentialEntry =
  credentialId :: string
  dbType :: "string option"

datatype outcome = Resolves jsval | Rejects jsval

type_synonym bridge = "string \<Rightarrow> string \<Rightarrow> outcome"

text \<open>
  \<^verbatim>\<open>QueryResult\<close>. The fields hold what the code puts there, which for a reply of an
  unexpected shape need not be what the interface declares; a field the source leaves
  out is undefined. The time stamp, a clock read, is left out.
\<close>

record QueryResult =
  columns :: jsval
  rows :: jsval
  rowCount :: jsval
  executionTimeMs :: jsval
  rawJson :: jsval
  error :: jsval

definition errorResult :: "jsval \<Rightarrow> QueryResult" where
  "errorResult e =
     \<lparr>columns = JArr [], rows = JArr [], rowCount = JNum 0, executionTimeMs = JNum 0,
      rawJson = JUndefined, error = e\<rparr>"

text \<open>What a \<^verbatim>\<open>catch\<close> clause receives: a value the bridge rejected with, or a
  \<^verbatim>\<open>TypeError\<close> that the code of the \<^verbatim>\<open>try\<close> block raised itself.\<close>

datatype thrown = Thrown jsval | ThrownTypeError

text \<open>
  The message of a \<^verbatim>\<open>TypeError\<close> raised by the engine. Its wording is the engine's;
  all that matters is that it is a non-empty string.
\<close>

definition typeErrorMessage :: string where
  "typeErrorMessage = ''Cannot read properties of null''"

fun isArray :: "jsval \<Rightarrow> bool" where
  "isArray (JArr xs) = True"
| "isArray v = False"

fun arrayItems :: "jsval \<Rightarrow> jsval list" where
  "arrayItems (JArr xs) = xs"
| "arrayItems v = []"

text \<open>
  The data-shape inference of the \<^verbatim>\<open>try\<close> block: the \<^verbatim>\<open>if\<close> statement that may
  replace \<^verbatim>\<open>columns\<close> and \<^verbatim>\<open>rows\<close>. Reading a key from a row that is null or
  undefined throws.
\<close>

definition inferShape :: "jsval \<Rightarrow> jsval \<Rightarrow> thrown + jsval \<times> jsval" where
  "inferShape cols rs =
     (if (\<not> truthy cols \<or> strictEq (propOf cols ''length'') (JNum 0)) \<and>
         isArray rs \<and> gtZero (propOf rs ''length'') \<and> isObjectLike (propOf rs ''0'')
      then
        (let inferred = jsKeys (propOf rs ''0'')
         in case mapE (\<lambda>obj. mapE (\<lambda>col. getProp obj col) inferred) (arrayItems rs) of
              Inl e \<Rightarrow> Inl ThrownTypeError
            | Inr projected \<Rightarrow> Inr (JArr (map JStr inferred), JArr (map JArr projected)))
      else Inr (cols, rs))"

text \<open>
  The \<^verbatim>\<open>try\<close> block, from the settled call on. \<open>Inl\<close> is a value thrown inside the
  block.
\<close>

definition tryRemoteQuery :: "outcome \<Rightarrow> thrown + QueryResult" where
  "tryRemoteQuery awaited =
     (case awaited of
        Rejects reason \<Rightarrow> Inl (Thrown reason)
      | Resolves response \<Rightarrow>
          if truthy response \<and> truthy (propOf response ''ok'') then
            (case inferShape (jsOr (propOf response ''columns'') (JArr []))
                             (jsOr (propOf response ''rows'') (JArr [])) of
               Inl t \<Rightarrow> Inl t
             | Inr (cols, rs) \<Rightarrow>
                 Inr \<lparr>columns = cols,
                      rows = rs,
                      rowCount = jsOr (propOf response ''rowCount'')
                                   (if truthy rs then propOf rs ''length'' else JNum 0),
                      executionTimeMs = jsOr (propOf response ''executionTimeMs'') (JNum 0),
                      rawJson = propOf response ''rawJson'',
                      error = JUndefined\<rparr>)
          else
            Inr (errorResult
                   (jsOr (if nullish response then JUndefined else propOf response ''error'')
                         (JStr ''Unknown remote error''))))"

text \<open>
  The \<^verbatim>\<open>catch\<close> clause reads \<^verbatim>\<open>error.message\<close> unguarded. \<open>Inl\<close> is an error
  that leaves the function: the promise it returned is rejected.
\<close>

fun catchRemoteQuery :: "thrown \<Rightarrow> error + QueryResult" where
  "catchRemoteQuery ThrownTypeError = Inr (errorResult (JStr typeErrorMessage))"
| "catchRemoteQuery (Thrown reason) =
     (case getProp reason ''message'' of
        Inl e \<Rightarrow> Inl e
      | Inr message \<Rightarrow> Inr (errorResult (jsOr message (JStr ''Bridge communication failed''))))"

definition executeRemoteQuery ::
  "bridge option \<Rightarrow> CredentialEntry \<Rightarrow> string \<Rightarrow> error + QueryResult" where
  "executeRemoteQuery send credential sql =
     (case send of
        None \<Rightarrow> Inr (errorResult (JStr ''Muul Browser bridge not detected.''))
      | Some f \<Rightarrow>
          (case tryRemoteQuery (f (credentialId credential) sql) of
             Inr result \<Rightarrow> Inr result
           | Inl t \<Rightarrow> catchRemoteQuery t))"

section \<open>Remote schema discovery (\<^verbatim>\<open>getRemoteDatabaseSchema\<close>, muulService)\<close>

text \<open>
  The dialect tag of a credential, as both \<^verbatim>\<open>getRemoteDatabaseSchema\<close> and
  \<^verbatim>\<open>getDialectForDb\<close> compute it:
  \<^verbatim>\<open>dbType?.toLowerCase() === 'sqlserver' ? 'mssql' : dbType?.toLowerCase() || 'postgres'\<close>.
\<close>

definition credentialDialect :: "CredentialEntry \<Rightarrow> string" where
  "credentialDialect credential =
     (case dbType credential of
        None \<Rightarrow> ''postgres''
      | Some t \<Rightarrow>
          if toLowerCase t = ''sqlserver'' then ''mssql''
          else if toLowerCase t \<noteq> [] then toLowerCase t
          else ''postgres'')"

text \<open>\<^verbatim>\<open>obj[key] = value\<close> on an object built key by key.\<close>

fun assign :: "(string \<times> jsval) list \<Rightarrow> string \<Rightarrow> jsval \<Rightarrow> (string \<times> jsval) list" where
  "assign [] k v = [(k, v)]"
| "assign ((k', v') # kvs) k v = (if k' = k then (k, v) # kvs else (k', v') # assign kvs k v)"

text \<open>
  \<^verbatim>\<open>toObjects\<close>: every row becomes an object keyed by the lower-cased column names.
  It throws when \<^verbatim>\<open>rows\<close> is not an array and, for a row at hand, when
  \<^verbatim>\<open>columns\<close> is not an array, a column name is not a string, or the row is null or
  undefined while there is a column to read.
\<close>

fun rowObject :: "jsval list \<Rightarrow> jsval \<Rightarrow> nat \<Rightarrow> (string \<times> jsval) list \<Rightarrow> error + jsval" where
  "rowObject [] row i obj = Inr (JObj obj)"
| "rowObject (JStr col # cols) row i obj =
     (case getProp row (showNat i) of
        Inl e \<Rightarrow> Inl e
      | Inr cell \<Rightarrow> rowObject cols row (Suc i) (assign obj (toLowerCase col) cell))"
| "rowObject (col # cols) row i obj = Inl TypeError"

definition toObjects :: "QueryResult \<Rightarrow> error + jsval list" where
  "toObjects res =
     (case rows res of
        JArr rs \<Rightarrow>
          mapE (\<lambda>row. case columns res of
                         JArr cols \<Rightarrow> rowObject cols row 0 []
                       | _ \<Rightarrow> Inl TypeError) rs
      | _ \<Rightarrow> Inl TypeError)"

text \<open>
  Primary-key detection, by dialect tag. For mysql,
  \<^verbatim>\<open>(colRow.key || '').toUpperCase()\<close> throws when the key field is a truthy value
  that is not a string.
\<close>

definition isPkOf :: "string \<Rightarrow> jsval \<Rightarrow> error + bool" where
  "isPkOf dbTypeStr colRow =
     (if dbTypeStr = ''sqlite'' then Inr (gtZero (propOf colRow ''pk''))
      else if dbTypeStr = ''postgres'' \<or> dbTypeStr = ''mssql'' then
        Inr (strictEq (propOf colRow ''pk'') (JNum 1) \<or> strictEq (propOf colRow ''pk'') (JBool True))
      else if dbTypeStr = ''mysql'' then
        (case jsOr (propOf colRow ''key'') (JStr []) of
           JStr k \<Rightarrow> Inr (toUpperCase k = ''PRI'')
         | _ \<Rightarrow> Inl TypeError)
      else Inr False)"

text \<open>The function mapped over the column rows of one table.\<close>

definition columnOf :: "string \<Rightarrow> jsval list \<Rightarrow> jsval \<Rightarrow> error + jsval ColumnDefinition" where
  "columnOf dbTypeStr fksData colRow =
     (let cname = jsOr (jsOr (propOf colRow ''name'') (propOf colRow ''field''))
                       (propOf colRow ''column_name'');
          ctype = jsOr (propOf colRow ''type'') (propOf colRow ''data_type'')
      in case isPkOf dbTypeStr colRow of
           Inl e \<Rightarrow> Inl e
         | Inr isPk \<Rightarrow>
             (let fkDef = find (\<lambda>fk. strictEq (propOf fk ''from'') cname) fksData
              in Inr \<lparr>name = cname, type = ctype, isPrimaryKey = isPk,
                      isForeignKey = (fkDef \<noteq> None),
                      references =
                        (case fkDef of
                           Some fk \<Rightarrow> Some \<lparr>table = propOf fk ''table'', column = propOf fk ''to''\<rparr>
                         | None \<Rightarrow> None)\<rparr>))"

text \<open>
  The body of \<^verbatim>\<open>for (const tableName of tableNames)\<close>: \<open>Inr None\<close> is the
  \<^verbatim>\<open>continue\<close>, \<open>Inr (Some t)\<close> the table pushed. The foreign-key rows are converted
  before the column rows, as in the source.
\<close>

definition discoverTable ::
  "bridge option \<Rightarrow> CredentialEntry \<Rightarrow> string \<Rightarrow> DialectQueries \<Rightarrow> jsval \<Rightarrow>
   error + jsval TableDefinition option" where
  "discoverTable send credential dbTypeStr dialect tableName =
     (case executeRemoteQuery send credential (getColumns dialect (jsToString tableName)) of
        Inl e \<Rightarrow> Inl e
      | Inr colsResult \<Rightarrow>
          if truthy (error colsResult) then Inr None
          else
            (case executeRemoteQuery send credential
                    (getForeignKeys dialect (jsToString tableName)) of
               Inl e \<Rightarrow> Inl e
             | Inr fksResult \<Rightarrow>
                 (case (if truthy (error fksResult) then Inr [] else toObjects fksResult) of
                    Inl e \<Rightarrow> Inl e
                  | Inr fksData \<Rightarrow>
                      (case toObjects colsResult of
                         Inl e \<Rightarrow> Inl e
                       | Inr colRows \<Rightarrow>
                           (case mapE (columnOf dbTypeStr fksData) colRows of
                              Inl e \<Rightarrow> Inl e
                            | Inr cols \<Rightarrow> Inr (Some \<lparr>tname = tableName, tcolumns = cols\<rparr>))))))"

fun discoverTables ::
  "bridge option \<Rightarrow> CredentialEntry \<Rightarrow> string \<Rightarrow> DialectQueries \<Rightarrow> jsval list \<Rightarrow>
   jsval TableDefinition list \<Rightarrow> error + jsval TableDefinition list" where
  "discoverTables send credential dbTypeStr dialect [] acc = Inr acc"
| "discoverTables send credential dbTypeStr dialect (tableName # rest) acc =
     (case discoverTable send credential dbTypeStr dialect tableName of
        Inl e \<Rightarrow> Inl e
      | Inr None \<Rightarrow> discoverTables send credential dbTypeStr dialect rest acc
      | Inr (Some t) \<Rightarrow> discoverTables send credential dbTypeStr dialect rest (acc @ [t]))"

text \<open>
  \<^verbatim>\<open>tablesResult.columns.length > 0 ? tablesResult.columns[0].toLowerCase() : null\<close>
\<close>

definition firstColumnName :: "jsval \<Rightarrow> error + string option" where
  "firstColumnName cols =
     (if gtZero (propOf cols ''length'') then
        (case propOf cols ''0'' of
           JStr c \<Rightarrow> Inr (Some (toLowerCase c))
         | _ \<Rightarrow> Inl TypeError)
      else Inr None)"

text \<open>
  \<^verbatim>\<open>row.name || (firstColName ? row[firstColName] : undefined)\<close>, kept when truthy.
\<close>

definition tableNamesOf :: "string option \<Rightarrow> jsval list \<Rightarrow> jsval list" where
  "tableNamesOf firstColName tableObjects =
     filter truthy
       (map (\<lambda>row. jsOr (propOf row ''name'')
                     (case firstColName of
                        Some c \<Rightarrow> if c \<noteq> [] then propOf row c else JUndefined
                      | None \<Rightarrow> JUndefined))
            tableObjects)"

definition getRemoteDatabaseSchema ::
  "bridge option \<Rightarrow> CredentialEntry \<Rightarrow> error + jsval DbSchema" where
  "getRemoteDatabaseSchema send credential =
     (let dbTypeStr = credentialDialect credential
      in case DialectRegistry dbTypeStr of
           None \<Rightarrow> Inr \<lparr>tables = []\<rparr>
         | Some dialect \<Rightarrow>
             (case executeRemoteQuery send credential (getTables dialect) of
                Inl e \<Rightarrow> Inl e
              | Inr tablesResult \<Rightarrow>
                  if truthy (error tablesResult) \<or> \<not> truthy (rows tablesResult)
                  then Inr \<lparr>tables = []\<rparr>
                  else
                    (case toObjects tablesResult of
                       Inl e \<Rightarrow> Inl e
                     | Inr tableObjects \<Rightarrow>
                         (case firstColumnName (columns tablesResult) of
                            Inl e \<Rightarrow> Inl e
                          | Inr firstColName \<Rightarrow>
                              (case discoverTables send credential dbTypeStr dialect
                                      (tableNamesOf firstColName tableObjects) [] of
                                 Inl e \<Rightarrow> Inl e
                               | Inr ts \<Rightarrow> Inr \<lparr>tables = ts\<rparr>)))))"

section \<open>The embedded engine's introspection (\<^verbatim>\<open>SqliteEngine.getSchema\<close>)\<close>

text \<open>
  The database object of sql.js is represented by its \<^verbatim>\<open>exec\<close> method: a statement
  yields a list of result sets, each a list of column names and a list of rows, or it
  throws (\<open>None\<close>).
\<close>

record ExecResult =
  xcolumns :: "string list"
  xvalues :: "jsval list list"

type_synonym database = "string \<Rightarrow> ExecResult list option"

text \<open>\<^verbatim>\<open>row[i]\<close> on a row of a result set.\<close>

definition cellAt :: "jsval list \<Rightarrow> nat \<Rightarrow> jsval" where
  "cellAt row i = (if i < length row then row ! i else JUndefined)"

text \<open>An entry of \<^verbatim>\<open>fks\<close>: the fields \<^verbatim>\<open>from\<close>, \<^verbatim>\<open>table\<close> and \<^verbatim>\<open>to\<close>.\<close>

record FkEdge =
  edgeFrom :: jsval
  edgeTable :: jsval
  edgeTo :: jsval

definition sqliteColumn :: "FkEdge list \<Rightarrow> jsval list \<Rightarrow> jsval ColumnDefinition" where
  "sqliteColumn fks row =
     (let cname = cellAt row 1;
          ctype = cellAt row 2;
          isPk = gtZero (cellAt row 5);
          fkDef = find (\<lambda>f. strictEq (edgeFrom f) cname) fks
      in \<lparr>name = cname, type = ctype, isPrimaryKey = isPk,
          isForeignKey = (fkDef \<noteq> None),
          references =
            (case fkDef of
               Some f \<Rightarrow> Some \<lparr>table = edgeTable f, column = edgeTo f\<rparr>
             | None \<Rightarrow> None)\<rparr>)"

text \<open>
  One pass of the loop over the table names; \<open>None\<close> is an exception, raised by
  \<^verbatim>\<open>exec\<close> or by reading \<^verbatim>\<open>colsRes[0].values\<close> when there is no result set.
\<close>

definition sqliteTable :: "database \<Rightarrow> jsval \<Rightarrow> jsval TableDefinition option" where
  "sqliteTable db tableName =
     (case db (''PRAGMA table_info(\"'' @ jsToString tableName @ ''\")'') of
        None \<Rightarrow> None
      | Some colsRes \<Rightarrow>
          (case db (''PRAGMA foreign_key_list(\"'' @ jsToString tableName @ ''\")'') of
             None \<Rightarrow> None
           | Some fkRes \<Rightarrow>
               (let fks = (case fkRes of
                             [] \<Rightarrow> []
                           | r # _ \<Rightarrow>
                               map (\<lambda>row. \<lparr>edgeFrom = cellAt row 3, edgeTable = cellAt row 2,
                                           edgeTo = cellAt row 4\<rparr>) (xvalues r))
                in case colsRes of
                     [] \<Rightarrow> None
                   | r # _ \<Rightarrow>
                       Some \<lparr>tname = tableName, tcolumns = map (sqliteColumn fks) (xvalues r)\<rparr>)))"

fun sqliteTables ::
  "database \<Rightarrow> jsval list \<Rightarrow> jsval TableDefinition list \<Rightarrow> jsval TableDefinition list option" where
  "sqliteTables db [] acc = Some acc"
| "sqliteTables db (tableName # rest) acc =
     (case sqliteTable db tableName of
        None \<Rightarrow> None
      | Some t \<Rightarrow> sqliteTables db rest (acc @ [t]))"

text \<open>
  \<^verbatim>\<open>getSchema\<close>; the argument is \<^verbatim>\<open>this.instances.get(dbId)\<close>. Every exception is
  caught and gives the empty schema.
\<close>

definition SqliteEngine_getSchema :: "database option \<Rightarrow> jsval DbSchema" where
  "SqliteEngine_getSchema inst =
     (case inst of
        None \<Rightarrow> \<lparr>tables = []\<rparr>
      | Some db \<Rightarrow>
          (case db (''SELECT name FROM sqlite_master WHERE type='table' AND name NOT LIKE 'sqlite_%'' @ [CHR 0x27]) of
             None \<Rightarrow> \<lparr>tables = []\<rparr>
           | Some [] \<Rightarrow> \<lparr>tables = []\<rparr>
           | Some (r # _) \<Rightarrow>
               (case sqliteTables db (concat (xvalues r)) [] of
                  None \<Rightarrow> \<lparr>tables = []\<rparr>
                | Some ts \<Rightarrow> \<lparr>tables = ts\<rparr>)))"

section \<open>The document-store engine (\<^verbatim>\<open>MongoEngine.getSchema\<close>)\<close>

definition getMockDocuments :: "string \<Rightarrow> jsval list" where
  "getMockDocuments collection =
     (if collection = ''users'' then
        [JObj [(''_id'', JStr ''64a1b2c3''), (''username'', JStr ''jdoe''),
               (''profile'', JObj [(''age'', JNum 30), (''city'', JStr ''NY'')]),
               (''tags'', JArr [JStr ''dev'', JStr ''admin''])],
         JObj [(''_id'', JStr ''64a1b2c4''), (''username'', JStr ''asmith''),
               (''profile'', JObj [(''age'', JNum 25), (''city'', JStr ''SF'')]),
               (''tags'', JArr [JStr ''design''])],
         JObj [(''_id'', JStr ''64a1b2c5''), (''username'', JStr ''bwong''),
               (''profile'', JObj [(''age'', JNum 34), (''city'', JStr ''London'')]),
               (''tags'', JArr [JStr ''hr''])]]
      else
        [JObj [(''_id'', JStr ''99x88y77''), (''collection'', JStr collection),
               (''status'', JStr ''processed''),
               (''metadata'', JObj [(''source'', JStr ''web'')])],
         JObj [(''_id'', JStr ''99x88y78''), (''collection'', JStr collection),
               (''status'', JStr ''pending''),
               (''metadata'', JObj [(''source'', JStr ''api'')])]])"

text \<open>
  \<^verbatim>\<open>extractColumns\<close>: the keys of every document, a key whose value is an object that
  is not an array replaced by its dotted sub-keys, collected in a set.
\<close>

definition extractColumns :: "jsval list \<Rightarrow> string list" where
  "extractColumns docs =
     foldl (\<lambda>keys doc.
              foldl (\<lambda>keys k.
                       (case propOf doc k of
                          JObj sub \<Rightarrow> foldl (\<lambda>keys subK. setAdd keys (k @ ''.'' @ subK)) keys (map fst sub)
                        | _ \<Rightarrow> setAdd keys k))
                    keys (jsKeys doc))
           [] docs"

definition MongoEngine_getSchema :: "string DbSchema" where
  "MongoEngine_getSchema =
     \<lparr>tables =
        map (\<lambda>collection.
               \<lparr>tname = collection,
                tcolumns =
                  map (\<lambda>c. \<lparr>name = c, type = ''bson'', isPrimaryKey = (c = ''_id''),
                             isForeignKey = (endsWith c ''_id'' \<and> c \<noteq> ''_id''),
                             references = None\<rparr>)
                      (extractColumns (take 1 (getMockDocuments collection)))\<rparr>)
            [''users'', ''orders'', ''logs'', ''settings'']\<rparr>"

section \<open>Explain-query rewriting (\<^verbatim>\<open>explainQuery\<close>, muulService)\<close>

text \<open>
  \<^verbatim>\<open>realDatabases\<close> maps the id of an uploaded database to its file name and dialect.
\<close>

definition getDialectForDb ::
  "(string \<Rightarrow> (string \<times> string) option) \<Rightarrow> string \<Rightarrow> CredentialEntry option \<Rightarrow> string" where
  "getDialectForDb realDatabases dbId credential =
     (case credential of
        Some c \<Rightarrow> credentialDialect c
      | None \<Rightarrow>
          if dbId = ''db-mssql'' then ''mssql''
          else if dbId = ''db-mongo'' then ''mongodb''
          else (case realDatabases dbId of
                  Some (fileName, dialect) \<Rightarrow> dialect
                | None \<Rightarrow> ''postgres''))"

text \<open>
  The call \<^verbatim>\<open>explainQuery\<close> ends with: \<^verbatim>\<open>executeRemoteQuery(credential, sql)\<close> or
  \<^verbatim>\<open>executeQuery(dbId, sql, ...)\<close>, with the statement it passes on.
\<close>

datatype Delegation =
    ExecuteRemoteQuery CredentialEntry string
  | ExecuteQuery string string

text \<open>The two lines after the \<^verbatim>\<open>switch\<close>.\<close>

definition delegate :: "CredentialEntry option \<Rightarrow> string \<Rightarrow> string \<Rightarrow> Delegation" where
  "delegate credential dbId explainSql =
     (case credential of
        Some c \<Rightarrow> ExecuteRemoteQuery c explainSql
      | None \<Rightarrow> ExecuteQuery dbId explainSql)"

definition explainQuery ::
  "(string \<Rightarrow> (string \<times> string) option) \<Rightarrow> string \<Rightarrow> string \<Rightarrow> CredentialEntry option \<Rightarrow>
   Delegation" where
  "explainQuery realDatabases dbId sql credential =
     (let dialect = getDialectForDb realDatabases dbId credential
      in if dialect = ''postgres'' then
           delegate credential dbId (''EXPLAIN (FORMAT JSON, ANALYZE) '' @ sql)
         else if dialect = ''sqlite'' then
           delegate credential dbId (''EXPLAIN QUERY PLAN '' @ sql)
         else if dialect = ''mssql'' then
           delegate credential dbId
             (''SET SHOWPLAN_XML ON;'' @ [CHR 0x0A] @ ''GO'' @ [CHR 0x0A] @ sql @
              [CHR 0x0A] @ ''GO'' @ [CHR 0x0A] @ ''SET SHOWPLAN_XML OFF;'')
         else if dialect = ''mysql'' then
           delegate credential dbId (''EXPLAIN FORMAT=JSON '' @ sql)
         else if dialect = ''mongodb'' then
           ExecuteQuery dbId
             (if includesStr sql ''.explain'' then sql else sql @ ''.explain(\"executionStats\")'')
         else delegate credential dbId (''EXPLAIN '' @ sql))"

section \<open>Replies that follow the reply envelope\<close>










text \<open>The invariant of a column: it is a foreign key exactly when it carries a reference.\<close>

definition fkConsistent :: "'a ColumnDefinition \<Rightarrow> bool" where
  "fkConsistent c = (isForeignKey c = (references c \<noteq> None))"

section \<open>Sample bridges and databases\<close>

text \<open>A successful reply in the tabular shape.\<close>

definition okReply :: "string list \<Rightarrow> jsval list list \<Rightarrow> outcome" where
  "okReply cs rs =
     Resolves (JObj [(''ok'', JBool True), (''columns'', JArr (map JStr cs)),
                     (''rows'', JArr (map JArr rs))])"

text \<open>
  A bridge in front of an SQLite file with the tables users, broken and orders. The
  column listing of broken is refused and the foreign-key listing of users times out.
\<close>

definition sqliteBridge :: bridge where
  "sqliteBridge c sql =
     (if sql = getTables sqlite_queries then
        okReply [''name''] [[JStr ''users''], [JStr ''broken''], [JStr ''orders'']]
      else if sql = getColumns sqlite_queries ''users'' then
        okReply [''cid'', ''name'', ''type'', ''notnull'', ''dflt_value'', ''pk'']
          [[JNum 0, JStr ''id'', JStr ''INTEGER'', JNum 1, JNull, JNum 1]]
      else if sql = getColumns sqlite_queries ''orders'' then
        okReply [''cid'', ''name'', ''type'', ''notnull'', ''dflt_value'', ''pk'']
          [[JNum 0, JStr ''id'', JStr ''INTEGER'', JNum 1, JNull, JNum 1],
           [JNum 1, JStr ''user_id'', JStr ''INTEGER'', JNum 0, JNull, JNum 0]]
      else if sql = getForeignKeys sqlite_queries ''orders'' then
        okReply [''id'', ''seq'', ''table'', ''from'', ''to'']
          [[JNum 0, JNum 0, JStr ''users'', JStr ''user_id'', JStr ''id'']]
      else if sql = getForeignKeys sqlite_queries ''users'' then
        Rejects (JObj [(''message'', JStr ''timeout'')])
      else Resolves (JObj [(''ok'', JBool False), (''error'', JStr ''no such table'')]))"

definition sqliteCredential :: CredentialEntry where
  "sqliteCredential = \<lparr>credentialId = ''7'', dbType = Some ''SQLite''\<rparr>"


text \<open>An embedded database with the tables users and orders.\<close>

definition sampleDatabase :: database where
  "sampleDatabase sql =
     (if sql = ''SELECT name FROM sqlite_master WHERE type='table' AND name NOT LIKE 'sqlite_%'' @ [CHR 0x27]
      then Some [\<lparr>xcolumns = [''name''], xvalues = [[JStr ''users''], [JStr ''orders'']]\<rparr>]
      else if sql = ''PRAGMA table_info(\"users\")'' then
        Some [\<lparr>xcolumns = [''cid'', ''name'', ''type'', ''notnull'', ''dflt_value'', ''pk''],
               xvalues = [[JNum 0, JStr ''id'', JStr ''INTEGER'', JNum 1, JNull, JNum 1]]\<rparr>]
      else if sql = ''PRAGMA table_info(\"orders\")'' then
        Some [\<lparr>xcolumns = [''cid'', ''name'', ''type'', ''notnull'', ''dflt_value'', ''pk''],
               xvalues = [[JNum 0, JStr ''id'', JStr ''INTEGER'', JNum 1, JNull, JNum 1],
                          [JNum 1, JStr ''user_id'', JStr ''INTEGER'', JNum 0, JNull, JNum 0]]\<rparr>]
      else if sql = ''PRAGMA foreign_key_list(\"orders\")'' then
        Some [\<lparr>xcolumns = [''id'', ''seq'', ''table'', ''from'', ''to'', ''on_update'',
                           ''on_delete'', ''match''],
               xvalues = [[JNum 0, JNum 0, JStr ''users'', JStr ''user_id'', JStr ''id'',
                           JStr ''NO ACTION'', JStr ''NO ACTION'', JStr ''NONE'']]\<rparr>]
      else Some [])"

text \<open>The schema both sample sources describe.\<close>

definition idColumn :: "jsval ColumnDefinition" where
  "idColumn =
     \<lparr>name = JStr ''id'', type = JStr ''INTEGER'', isPrimaryKey = True, isForeignKey = False,
      references = None\<rparr>"

definition userIdColumn :: "jsval ColumnDefinition" where
  "userIdColumn =
     \<lparr>name = JStr ''user_id'', type = JStr ''INTEGER'', isPrimaryKey = False,
      isForeignKey = True, references = Some \<lparr>table = JStr ''users'', column = JStr ''id''\<rparr>\<rparr>"

definition sampleSchema :: "jsval DbSchema" where
  "sampleSchema =
     \<lparr>tables = [\<lparr>tname = JStr ''users'', tcolumns = [idColumn]\<rparr>,
                \<lparr>tname = JStr ''orders'', tcolumns = [idColumn, userIdColumn]\<rparr>]\<rparr>"






section \<open>Join inference: properties\<close>

lemma tier_values: "tier S T n e \<in> {-1, 2, 8, 10}"
  by (auto simp: tier_def soloJoin_def joinStep_def Let_def split: option.splits list.splits)

text \<open>
  The loop body replaces the state by the scanned table's own join exactly when that
  table yields one whose score is at least the current score.
\<close>

lemma joinStep_char:
  assumes "snd best \<in> {-1, 2, 8, 10}"
  shows "joinStep S T n best e =
           (if 0 < tier S T n e \<and> snd best \<le> tier S T n e then soloJoin S T n e else best)"
  using assms
  by (cases best)
     (auto simp: tier_def soloJoin_def joinStep_def Let_def split: option.splits list.splits)

lemma joinStep_score:
  assumes "snd best \<in> {-1, 2, 8, 10}"
  shows "snd (joinStep S T n best e) = max (snd best) (tier S T n e)"
proof -
  have "tier S T n e \<in> {-1, 2, 8, 10}" by (rule tier_values)
  then show ?thesis
    using assms by (auto simp: joinStep_char tier_def [symmetric])
qed

lemma joinStep_values:
  assumes "snd best \<in> {-1, 2, 8, 10}"
  shows "snd (joinStep S T n best e) \<in> {-1, 2, 8, 10}"
  using assms tier_values [of S T n e] by (simp add: joinStep_score max_def)

lemma scan_values:
  assumes "snd best \<in> {-1, 2, 8, 10}"
  shows "snd (foldl (joinStep S T n) best es) \<in> {-1, 2, 8, 10}"
  using assms
proof (induction es arbitrary: best)
  case Nil
  then show ?case by simp
next
  case (Cons e es)
  show ?case
    using Cons.IH [OF joinStep_values [OF Cons.prems]] by simp
qed

lemma scan_unchanged:
  assumes "snd best \<in> {-1, 2, 8, 10}" and "\<forall>x\<in>set es. tier S T n x < snd best"
  shows "foldl (joinStep S T n) best es = best"
  using assms by (induction es) (simp_all add: joinStep_char)

lemma scan_bounded:
  assumes "snd best \<in> {-1, 2, 8, 10}" and "snd best \<le> m"
    and "\<forall>x\<in>set es. tier S T n x \<le> m"
  shows "snd (foldl (joinStep S T n) best es) \<le> m"
  using assms
proof (induction es arbitrary: best)
  case Nil
  then show ?case by simp
next
  case (Cons e es)
  have v: "snd (joinStep S T n best e) \<in> {-1, 2, 8, 10}"
    by (rule joinStep_values [OF Cons.prems(1)])
  have b: "snd (joinStep S T n best e) \<le> m"
    using Cons.prems by (simp add: joinStep_score)
  show ?case using Cons.IH [OF v b] Cons.prems(3) by simp
qed








lemma soloJoin_against:
  "0 < tier S T n e \<Longrightarrow> map_option existingTable (fst (soloJoin S T n e)) = Some e"
  by (auto simp: tier_def soloJoin_def joinStep_def Let_def split: option.splits list.splits)

text \<open>
  Claim C1, as the code has it. When several scanned tables yield a join of the best
  score, the loop keeps the join of the last of them in scan order, not of the first:
  a table \<open>e\<close> that yields a join, preceded only by tables of at most its score and
  followed only by tables of a smaller score, is the one whose join is selected.
\<close>

theorem last_of_best_tier_wins:
  assumes "0 < tier S T n e"
    and "\<forall>x\<in>set pre. tier S T n x \<le> tier S T n e"
    and "\<forall>x\<in>set post. tier S T n x < tier S T n e"
  shows "scanExisting S T n (pre @ e # post) = soloJoin S T n e \<and>
         map_option existingTable (fst (scanExisting S T n (pre @ e # post))) = Some e"
proof -
  let ?b = "foldl (joinStep S T n) (None, -1) pre"
  have v: "snd ?b \<in> {-1, 2, 8, 10}"
    by (rule scan_values) simp
  have le: "snd ?b \<le> tier S T n e"
    using scan_bounded [of "(None, -1)" "tier S T n e" pre S T n] assms(1,2) by simp
  have step: "joinStep S T n ?b e = soloJoin S T n e"
    using assms(1) le by (simp add: joinStep_char [OF v])
  have v2: "snd (soloJoin S T n e) \<in> {-1, 2, 8, 10}"
    using tier_values [of S T n e] by (simp add: tier_def)
  have "foldl (joinStep S T n) (soloJoin S T n e) post = soloJoin S T n e"
    using scan_unchanged [OF v2] assms(3) by (simp add: tier_def)
  then have "scanExisting S T n (pre @ e # post) = soloJoin S T n e"
    by (simp add: scanExisting_def step)
  with soloJoin_against [OF assms(1)] show ?thesis by simp
qed

theorem last_of_best_tier_wins_witness:
  "0 < tier shopSchema itemsTable ''items'' ''products'' \<and>
   tier shopSchema itemsTable ''items'' ''orders''
     \<le> tier shopSchema itemsTable ''items'' ''products'' \<and>
   tier shopSchema itemsTable ''items'' ''items''
     < tier shopSchema itemsTable ''items'' ''products'' \<and>
   scanExisting shopSchema itemsTable ''items'' ([''orders''] @ ''products'' # [''items''])
     = soloJoin shopSchema itemsTable ''items'' ''products'' \<and>
   map_option existingTable
     (fst (scanExisting shopSchema itemsTable ''items'' ([''orders''] @ ''products'' # [''items''])))
     = Some ''products''"
proof -
  have h1: "0 < tier shopSchema itemsTable ''items'' ''products''"
    by code_simp
  have h2: "tier shopSchema itemsTable ''items'' ''orders''
              \<le> tier shopSchema itemsTable ''items'' ''products''"
    by code_simp
  have h3: "tier shopSchema itemsTable ''items'' ''items''
              < tier shopSchema itemsTable ''items'' ''products''"
    by code_simp
  have q2: "\<forall>x\<in>set [''orders'']. tier shopSchema itemsTable ''items'' x
              \<le> tier shopSchema itemsTable ''items'' ''products''"
    using h2 by simp
  have q3: "\<forall>x\<in>set [''items'']. tier shopSchema itemsTable ''items'' x
              < tier shopSchema itemsTable ''items'' ''products''"
    using h3 by simp
  show ?thesis
    using h1 h2 h3 last_of_best_tier_wins [OF h1 q2 q3] by blast
qed

text \<open>
  Claim C1, as stated, fails. The text names the tables orders and products, in that
  order; the dropped table items has a foreign key to each, so both yield a join of
  score 10. The join selected is the one against products, the second of the two.
\<close>

theorem first_table_tie_counterexample:
  "existingTablesInSql ''SELECT * FROM \"orders\", \"products\"''
     = [''SELECT'', ''FROM'', ''orders'', ''products''] \<and>
   tier shopSchema itemsTable ''items'' ''orders'' = 10 \<and>
   tier shopSchema itemsTable ''items'' ''products'' = 10 \<and>
   map_option existingTable
     (fst (scanExisting shopSchema itemsTable ''items''
            (existingTablesInSql ''SELECT * FROM \"orders\", \"products\"'')))
     = Some ''products'' \<and>
   (case handleEditorDrop shopSchema ''SELECT * FROM \"orders\", \"products\"'' [''items''] of
      OpenJoinBuilder joins \<Rightarrow> map existingTable joins
    | UpdateTabContent sql \<Rightarrow> [])
     = [''products''] \<and>
   (case handleEditorDrop shopSchema ''SELECT * FROM \"orders\", \"products\"'' [''items''] of
      OpenJoinBuilder joins \<Rightarrow> map existingTable joins
    | UpdateTabContent sql \<Rightarrow> [])
     \<noteq> [''orders'']"
  by code_simp



section \<open>The remote bridge: properties\<close>

lemma mapE_all:
  assumes "\<forall>x\<in>set xs. f x = Inr (g x)"
  shows "mapE f xs = Inr (map g xs)"
  using assms by (induction xs) simp_all

lemma propOf_ok_truthy: "truthy (propOf v ''ok'') \<Longrightarrow> truthy v"
  by (cases v) (simp_all add: indexOfKey_def digitValue_def split: if_splits)

text \<open>
  Claim C3. A reply with \<^verbatim>\<open>ok: true\<close>, no \<^verbatim>\<open>columns\<close> (or an empty list) and a
  non-empty array of row objects gives a result whose columns are the keys of the first
  row, in their enumeration order, and whose rows are the row objects read key by key.
\<close>

theorem column_inference:
  assumes ok: "propOf response ''ok'' = JBool True"
    and cols: "propOf response ''columns'' = JUndefined \<or> propOf response ''columns'' = JArr []"
    and rws: "propOf response ''rows'' = JArr (JObj kvs # rest)"
    and objs: "\<forall>r\<in>set rest. \<exists>kvs'. r = JObj kvs'"
    and snd: "f (credentialId credential) sql = Resolves response"
  shows "\<exists>result. executeRemoteQuery (Some f) credential sql = Inr result \<and>
           columns result = JArr (map JStr (map fst kvs)) \<and>
           rows result =
             JArr (map (\<lambda>obj. JArr (map (\<lambda>col. propOf obj col) (map fst kvs))) (JObj kvs # rest)) \<and>
           error result = JUndefined"
proof -
  have t: "truthy response" using ok propOf_ok_truthy [of response] by simp
  have c0: "jsOr (propOf response ''columns'') (JArr []) = JArr []"
    using cols by (auto simp: jsOr_def)
  have r0: "jsOr (propOf response ''rows'') (JArr []) = JArr (JObj kvs # rest)"
    using rws by (simp add: jsOr_def)
  have rowsOk: "\<forall>obj\<in>set (JObj kvs # rest).
                  mapE (\<lambda>col. getProp obj col) (map fst kvs)
                    = Inr (map (\<lambda>col. propOf obj col) (map fst kvs))"
  proof
    fix obj assume "obj \<in> set (JObj kvs # rest)"
    then have "\<not> nullish obj" using objs by auto
    then show "mapE (\<lambda>col. getProp obj col) (map fst kvs)
                 = Inr (map (\<lambda>col. propOf obj col) (map fst kvs))"
      by (intro mapE_all) (simp add: getProp_def)
  qed
  have inf: "inferShape (JArr []) (JArr (JObj kvs # rest))
               = Inr (JArr (map JStr (map fst kvs)),
                      JArr (map JArr (map (\<lambda>obj. map (\<lambda>col. propOf obj col) (map fst kvs))
                                         (JObj kvs # rest))))"
    unfolding inferShape_def using mapE_all [OF rowsOk]
    by (simp add: strictEq_def gtZero_def indexOfKey_def digitValue_def digitChar_def Let_def)
  show ?thesis
    using t ok snd
    by (simp add: executeRemoteQuery_def tryRemoteQuery_def c0 r0 inf comp_def)
qed


text \<open>
  The witness: the reply \<^verbatim>\<open>{ok: true, rows: [{a: 1, b: "x"}]}\<close> of the claim, and a
  reply with an empty column list and a second row whose keys come in another order.
\<close>

theorem column_inference_witness:
  "propOf (JObj [(''ok'', JBool True), (''rows'', JArr [JObj [(''a'', JNum 1), (''b'', JStr ''x'')]])])
     ''ok'' = JBool True \<and>
   propOf (JObj [(''ok'', JBool True), (''rows'', JArr [JObj [(''a'', JNum 1), (''b'', JStr ''x'')]])])
     ''columns'' = JUndefined \<and>
   (\<exists>result.
      executeRemoteQuery
        (Some (\<lambda>c s. Resolves (JObj [(''ok'', JBool True),
                                       (''rows'', JArr [JObj [(''a'', JNum 1), (''b'', JStr ''x'')]])])))
        sqliteCredential ''SELECT 1'' = Inr result \<and>
      columns result = JArr [JStr ''a'', JStr ''b''] \<and>
      rows result = JArr [JArr [JNum 1, JStr ''x'']]) \<and>
   (\<exists>result.
      executeRemoteQuery
        (Some (\<lambda>c s. Resolves (JObj [(''ok'', JBool True), (''columns'', JArr []),
                                       (''rows'', JArr [JObj [(''a'', JNum 1), (''b'', JStr ''x'')],
                                                        JObj [(''b'', JStr ''y''), (''a'', JNum 2)]])])))
        sqliteCredential ''SELECT 1'' = Inr result \<and>
      columns result = JArr [JStr ''a'', JStr ''b''] \<and>
      rows result = JArr [JArr [JNum 1, JStr ''x''], JArr [JNum 2, JStr ''y'']])"
proof -
  let ?r1 = "JObj [(''ok'', JBool True), (''rows'', JArr [JObj [(''a'', JNum 1), (''b'', JStr ''x'')]])]"
  let ?r2 = "JObj [(''ok'', JBool True), (''columns'', JArr []),
                   (''rows'', JArr [JObj [(''a'', JNum 1), (''b'', JStr ''x'')],
                                    JObj [(''b'', JStr ''y''), (''a'', JNum 2)]])]"
  have ok1: "propOf ?r1 ''ok'' = JBool True" by simp
  have c1: "propOf ?r1 ''columns'' = JUndefined \<or> propOf ?r1 ''columns'' = JArr []" by simp
  have rows1: "propOf ?r1 ''rows'' = JArr (JObj [(''a'', JNum 1), (''b'', JStr ''x'')] # [])" by simp
  have rest1: "\<forall>r\<in>set []. \<exists>kvs'. r = JObj kvs'" by simp
  have ok2: "propOf ?r2 ''ok'' = JBool True" by simp
  have c2: "propOf ?r2 ''columns'' = JUndefined \<or> propOf ?r2 ''columns'' = JArr []" by simp
  have rows2: "propOf ?r2 ''rows''
                 = JArr (JObj [(''a'', JNum 1), (''b'', JStr ''x'')] #
                         [JObj [(''b'', JStr ''y''), (''a'', JNum 2)]])"
    by simp
  have rest2: "\<forall>r\<in>set [JObj [(''b'', JStr ''y''), (''a'', JNum 2)]]. \<exists>kvs'. r = JObj kvs'"
    by simp
  have w1: "\<exists>result.
      executeRemoteQuery (Some (\<lambda>c s. Resolves ?r1)) sqliteCredential ''SELECT 1'' = Inr result \<and>
      columns result = JArr [JStr ''a'', JStr ''b''] \<and>
      rows result = JArr [JArr [JNum 1, JStr ''x'']]"
    using column_inference [OF ok1 c1 rows1 rest1, of "\<lambda>c s. Resolves ?r1" sqliteCredential "''SELECT 1''"]
    by auto
  have w2: "\<exists>result.
      executeRemoteQuery (Some (\<lambda>c s. Resolves ?r2)) sqliteCredential ''SELECT 1'' = Inr result \<and>
      columns result = JArr [JStr ''a'', JStr ''b''] \<and>
      rows result = JArr [JArr [JNum 1, JStr ''x''], JArr [JNum 2, JStr ''y'']]"
    using column_inference [OF ok2 c2 rows2 rest2, of "\<lambda>c s. Resolves ?r2" sqliteCredential "''SELECT 1''"]
    by auto
  show ?thesis
    using ok1 w1 w2 by simp
qed

text \<open>
  The failure paths of \<^verbatim>\<open>executeRemoteQuery\<close> that end in an error result: a missing
  bridge, a reply that is falsy or whose \<^verbatim>\<open>ok\<close> is falsy, and a rejection with a
  reason that is neither undefined nor null.
\<close>

lemma executeRemoteQuery_failure_paths:
  "executeRemoteQuery None credential sql
     = Inr (errorResult (JStr ''Muul Browser bridge not detected.''))"
  "f (credentialId credential) sql = Resolves response \<Longrightarrow>
   \<not> (truthy response \<and> truthy (propOf response ''ok'')) \<Longrightarrow>
   \<exists>e. executeRemoteQuery (Some f) credential sql = Inr (errorResult e) \<and> truthy e"
  "f (credentialId credential) sql = Rejects reason \<Longrightarrow> \<not> nullish reason \<Longrightarrow>
   \<exists>e. executeRemoteQuery (Some f) credential sql = Inr (errorResult e) \<and> truthy e"
  by (auto simp: executeRemoteQuery_def tryRemoteQuery_def getProp_def jsOr_def)

text \<open>
  Claim C4 at the input where the code departs from it. A bridge whose promise is
  rejected without a reason (\<^verbatim>\<open>Promise.reject()\<close>) makes the \<^verbatim>\<open>catch\<close> clause read
  \<^verbatim>\<open>message\<close> from undefined; the \<^verbatim>\<open>TypeError\<close> leaves the function, whose promise
  is rejected instead of resolving with an error result.
\<close>

theorem rejection_without_reason_escapes:
  "executeRemoteQuery (Some (\<lambda>c s. Rejects JUndefined)) credential sql = Inl TypeError"
  by (simp add: executeRemoteQuery_def tryRemoteQuery_def getProp_def)

section \<open>Dialect resolution and primary keys: properties\<close>





text \<open>
  Claim C5, as stated, fails in its last clause: for mysql the \<^verbatim>\<open>pk\<close> field is not
  read, so a row without it is a primary key when its \<^verbatim>\<open>key\<close> field says so.
\<close>

theorem pk_absent_counterexample:
  "propOf (JObj [(''field'', JStr ''id''), (''key'', JStr ''PRI'')]) ''pk'' = JUndefined \<and>
   columnOf ''mysql'' [] (JObj [(''field'', JStr ''id''), (''key'', JStr ''PRI'')])
     = Inr \<lparr>name = JStr ''id'', type = JUndefined, isPrimaryKey = True, isForeignKey = False,
            references = None\<rparr>"
  by code_simp

text \<open>
  Claim C5, as the code has it. For sqlite a numeric \<^verbatim>\<open>pk\<close> field decides by being
  greater than zero; for postgres and mssql the field must be the number 1 or the boolean
  true; for mysql a \<^verbatim>\<open>key\<close> field that is a string decides by being PRI in any case,
  and a missing or empty one gives false; for every dialect but mysql, a \<^verbatim>\<open>pk\<close> of 0,
  false or absent gives false. The column built from the row carries that decision.
\<close>

theorem primary_key_detection:
  "(propOf colRow ''pk'' = JNum n \<longrightarrow> isPkOf ''sqlite'' colRow = Inr (0 < n)) \<and>
   (d = ''postgres'' \<or> d = ''mssql'' \<longrightarrow>
      isPkOf d colRow = Inr (propOf colRow ''pk'' = JNum 1 \<or> propOf colRow ''pk'' = JBool True)) \<and>
   (propOf colRow ''key'' = JStr k \<longrightarrow> isPkOf ''mysql'' colRow = Inr (toUpperCase k = ''PRI'')) \<and>
   (\<not> truthy (propOf colRow ''key'') \<longrightarrow> isPkOf ''mysql'' colRow = Inr False) \<and>
   (d \<noteq> ''mysql'' \<longrightarrow> propOf colRow ''pk'' \<in> {JNum 0, JBool False, JUndefined} \<longrightarrow>
      isPkOf d colRow = Inr False) \<and>
   (columnOf d fksData colRow = Inr c \<longrightarrow> isPkOf d colRow = Inr (isPrimaryKey c))"
proof (intro conjI impI)
  show "isPkOf ''sqlite'' colRow = Inr (0 < n)" if "propOf colRow ''pk'' = JNum n"
    using that by (simp add: isPkOf_def gtZero_def)
  show "isPkOf d colRow = Inr (propOf colRow ''pk'' = JNum 1 \<or> propOf colRow ''pk'' = JBool True)"
    if "d = ''postgres'' \<or> d = ''mssql''"
    using that by (auto simp: isPkOf_def strictEq_def)
  show "isPkOf ''mysql'' colRow = Inr (toUpperCase k = ''PRI'')" if "propOf colRow ''key'' = JStr k"
    using that by (simp add: isPkOf_def jsOr_def toUpperCase_def)
  show "isPkOf ''mysql'' colRow = Inr False" if "\<not> truthy (propOf colRow ''key'')"
    using that by (simp add: isPkOf_def jsOr_def toUpperCase_def)
  show "isPkOf d colRow = Inr False"
    if nm: "d \<noteq> ''mysql''" and pk: "propOf colRow ''pk'' \<in> {JNum 0, JBool False, JUndefined}"
  proof -
    from pk have alt: "propOf colRow ''pk'' = JNum 0 \<or> propOf colRow ''pk'' = JBool False \<or>
                       propOf colRow ''pk'' = JUndefined"
      by blast
    have g: "\<not> gtZero (propOf colRow ''pk'')"
      using alt by (elim disjE) (simp_all add: gtZero_def)
    have s: "\<not> strictEq (propOf colRow ''pk'') (JNum 1)"
            "\<not> strictEq (propOf colRow ''pk'') (JBool True)"
      using alt by (elim disjE; simp add: strictEq_def)+
    show ?thesis
      unfolding isPkOf_def using nm g s by simp
  qed
  show "isPkOf d colRow = Inr (isPrimaryKey c)" if "columnOf d fksData colRow = Inr c"
    using that by (auto simp: columnOf_def Let_def split: sum.splits)
qed

theorem primary_key_detection_witness:
  "propOf (JObj [(''name'', JStr ''id''), (''pk'', JNum 1)]) ''pk'' = JNum 1 \<and>
   isPkOf ''sqlite'' (JObj [(''name'', JStr ''id''), (''pk'', JNum 1)]) = Inr True \<and>
   isPkOf ''postgres'' (JObj [(''name'', JStr ''id''), (''pk'', JBool True)]) = Inr True \<and>
   propOf (JObj [(''field'', JStr ''id''), (''key'', JStr ''pri'')]) ''key'' = JStr ''pri'' \<and>
   isPkOf ''mysql'' (JObj [(''field'', JStr ''id''), (''key'', JStr ''pri'')]) = Inr True \<and>
   \<not> truthy (propOf (JObj [(''field'', JStr ''id'')]) ''key'') \<and>
   isPkOf ''mysql'' (JObj [(''field'', JStr ''id'')]) = Inr False \<and>
   propOf (JObj [(''name'', JStr ''id''), (''pk'', JBool False)]) ''pk''
     \<in> {JNum 0, JBool False, JUndefined} \<and>
   isPkOf ''mssql'' (JObj [(''name'', JStr ''id''), (''pk'', JBool False)]) = Inr False \<and>
   columnOf ''sqlite'' [] (JObj [(''name'', JStr ''id''), (''pk'', JNum 1)])
     = Inr \<lparr>name = JStr ''id'', type = JUndefined, isPrimaryKey = True, isForeignKey = False,
            references = None\<rparr>"
proof -
  let ?lite = "JObj [(''name'', JStr ''id''), (''pk'', JNum 1)]"
  let ?pg = "JObj [(''name'', JStr ''id''), (''pk'', JBool True)]"
  let ?my = "JObj [(''field'', JStr ''id''), (''key'', JStr ''pri'')]"
  let ?none = "JObj [(''field'', JStr ''id'')]"
  let ?ms = "JObj [(''name'', JStr ''id''), (''pk'', JBool False)]"
  let ?col = "\<lparr>name = JStr ''id'', type = JUndefined, isPrimaryKey = True, isForeignKey = False,
               references = None\<rparr> :: jsval ColumnDefinition"
  have h1: "propOf ?lite ''pk'' = JNum 1" by simp
  have h3: "propOf ?my ''key'' = JStr ''pri''" by simp
  have h4: "\<not> truthy (propOf ?none ''key'')" by simp
  have h5: "propOf ?ms ''pk'' \<in> {JNum 0, JBool False, JUndefined}" by simp
  have h6: "columnOf ''sqlite'' [] ?lite = Inr ?col" by code_simp
  have u: "toUpperCase ''pri'' = ''PRI''" by code_simp
  have pgpk: "propOf ?pg ''pk'' = JBool True" by simp
  show ?thesis
    using h1 h3 h4 h5 h6 u pgpk
      primary_key_detection [of ?lite 1 "''sqlite''" "''pri''" "[]" ?col]
      primary_key_detection [of ?pg 1 "''postgres''" "''pri''" "[]" ?col]
      primary_key_detection [of ?my 1 "''sqlite''" "''pri''" "[]" ?col]
      primary_key_detection [of ?none 1 "''sqlite''" "''pri''" "[]" ?col]
      primary_key_detection [of ?ms 1 "''mssql''" "''pri''" "[]" ?col]
    by simp
qed

section \<open>Explain-query rewriting: properties\<close>

text \<open>
  Claim C10. When the dialect resolves to sqlite, the statement passed on is the input
  prefixed with \<^verbatim>\<open>EXPLAIN QUERY PLAN\<close>; for \<^verbatim>\<open>SELECT 1\<close> it is exactly
  \<^verbatim>\<open>EXPLAIN QUERY PLAN SELECT 1\<close>, sent through the bridge when a credential is given
  and to the local engines otherwise.
\<close>

theorem explain_sqlite:
  assumes "getDialectForDb realDatabases dbId credential = ''sqlite''"
  shows "explainQuery realDatabases dbId sql credential
           = delegate credential dbId (''EXPLAIN QUERY PLAN '' @ sql) \<and>
         explainQuery realDatabases dbId ''SELECT 1'' credential
           = delegate credential dbId ''EXPLAIN QUERY PLAN SELECT 1''"
  using assms by (simp add: explainQuery_def)

theorem explain_sqlite_witness:
  "getDialectForDb [''user-db-1'' \<mapsto> (''people.csv'', ''sqlite'')] ''user-db-1'' None = ''sqlite'' \<and>
   explainQuery [''user-db-1'' \<mapsto> (''people.csv'', ''sqlite'')] ''user-db-1'' ''SELECT 1'' None
     = ExecuteQuery ''user-db-1'' ''EXPLAIN QUERY PLAN SELECT 1'' \<and>
   getDialectForDb Map.empty ''x'' (Some \<lparr>credentialId = ''7'', dbType = Some ''SQLite''\<rparr>) = ''sqlite'' \<and>
   explainQuery Map.empty ''x'' ''SELECT 1'' (Some \<lparr>credentialId = ''7'', dbType = Some ''SQLite''\<rparr>)
     = ExecuteRemoteQuery \<lparr>credentialId = ''7'', dbType = Some ''SQLite''\<rparr> ''EXPLAIN QUERY PLAN SELECT 1''"
proof -
  have h1: "getDialectForDb [''user-db-1'' \<mapsto> (''people.csv'', ''sqlite'')] ''user-db-1'' None = ''sqlite''"
    by (simp add: getDialectForDb_def)
  have h2: "getDialectForDb Map.empty ''x'' (Some \<lparr>credentialId = ''7'', dbType = Some ''SQLite''\<rparr>) = ''sqlite''"
    by (simp add: getDialectForDb_def credentialDialect_def toLowerCase_def toLowerChar_def)
  show ?thesis
    using h1 h2 explain_sqlite [OF h1, of "''SELECT 1''"] explain_sqlite [OF h2, of "''SELECT 1''"]
    by (simp add: delegate_def)
qed

section \<open>Schema sources: the foreign-key invariant\<close>

lemma mapE_results:
  assumes "mapE f xs = Inr ys" and "\<And>x y. f x = Inr y \<Longrightarrow> P y"
  shows "\<forall>y\<in>set ys. P y"
  using assms
  by (induction xs arbitrary: ys) (auto split: sum.splits)

lemma columnOf_consistent: "columnOf d fksData colRow = Inr c \<Longrightarrow> fkConsistent c"
  by (auto simp: columnOf_def fkConsistent_def Let_def split: sum.splits option.splits)

lemma discoverTable_consistent:
  assumes "discoverTable send credential d dialect tableName = Inr (Some t)"
  shows "\<forall>c\<in>set (tcolumns t). fkConsistent c"
proof -
  from assms obtain fksData colRows cols where
    m: "mapE (columnOf d fksData) colRows = Inr cols" and t: "t = \<lparr>tname = tableName, tcolumns = cols\<rparr>"
    by (auto simp: discoverTable_def split: sum.splits if_splits)
  from mapE_results [OF m columnOf_consistent] t show ?thesis by simp
qed

lemma discoverTables_consistent:
  assumes "discoverTables send credential d dialect names acc = Inr ts"
    and "\<forall>t\<in>set acc. \<forall>c\<in>set (tcolumns t). fkConsistent c"
  shows "\<forall>t\<in>set ts. \<forall>c\<in>set (tcolumns t). fkConsistent c"
  using assms
proof (induction names arbitrary: acc)
  case Nil
  then show ?case by simp
next
  case (Cons n names)
  show ?case
  proof (cases "discoverTable send credential d dialect n")
    case (Inl e)
    with Cons.prems(1) show ?thesis by simp
  next
    case (Inr r)
    show ?thesis
    proof (cases r)
      case None
      with Inr Cons.prems have "discoverTables send credential d dialect names acc = Inr ts"
        by simp
      from Cons.IH [OF this Cons.prems(2)] show ?thesis .
    next
      case (Some t)
      with Inr Cons.prems have run: "discoverTables send credential d dialect names (acc @ [t]) = Inr ts"
        by simp
      have "\<forall>c\<in>set (tcolumns t). fkConsistent c"
        using discoverTable_consistent Inr Some by blast
      with Cons.prems(2) have "\<forall>t\<in>set (acc @ [t]). \<forall>c\<in>set (tcolumns t). fkConsistent c"
        by auto
      from Cons.IH [OF run this] show ?thesis .
    qed
  qed
qed

lemma remote_consistent:
  assumes "getRemoteDatabaseSchema send credential = Inr schema"
  shows "\<forall>t\<in>set (tables schema). \<forall>c\<in>set (tcolumns t). fkConsistent c"
proof -
  from assms consider "schema = \<lparr>tables = []\<rparr>"
    | d dialect names ts where "discoverTables send credential d dialect names [] = Inr ts"
        "schema = \<lparr>tables = ts\<rparr>"
    by (auto simp: getRemoteDatabaseSchema_def Let_def split: option.splits sum.splits if_splits)
  then show ?thesis
  proof cases
    case 1
    then show ?thesis by simp
  next
    case 2
    from discoverTables_consistent [OF 2(1)] 2(2) show ?thesis by simp
  qed
qed

lemma sqliteColumn_consistent: "fkConsistent (sqliteColumn fks row)"
  by (auto simp: sqliteColumn_def fkConsistent_def Let_def split: option.splits)

lemma sqliteTable_consistent:
  "sqliteTable db tableName = Some t \<Longrightarrow> \<forall>c\<in>set (tcolumns t). fkConsistent c"
  by (auto simp: sqliteTable_def Let_def sqliteColumn_consistent split: option.splits list.splits)

lemma sqliteTables_consistent:
  assumes "sqliteTables db names acc = Some ts"
    and "\<forall>t\<in>set acc. \<forall>c\<in>set (tcolumns t). fkConsistent c"
  shows "\<forall>t\<in>set ts. \<forall>c\<in>set (tcolumns t). fkConsistent c"
  using assms
proof (induction names arbitrary: acc)
  case Nil
  then show ?case by simp
next
  case (Cons n names)
  from Cons.prems(1) obtain t where t: "sqliteTable db n = Some t"
    and run: "sqliteTables db names (acc @ [t]) = Some ts"
    by (auto split: option.splits)
  have "\<forall>t\<in>set (acc @ [t]). \<forall>c\<in>set (tcolumns t). fkConsistent c"
    using Cons.prems(2) sqliteTable_consistent [OF t] by auto
  from Cons.IH [OF run this] show ?case .
qed

lemma embedded_consistent:
  "\<forall>t\<in>set (tables (SqliteEngine_getSchema inst)). \<forall>c\<in>set (tcolumns t). fkConsistent c"
proof (cases inst)
  case None
  then show ?thesis by (simp add: SqliteEngine_getSchema_def)
next
  case (Some db)
  show ?thesis
  proof (cases "db (''SELECT name FROM sqlite_master WHERE type='table' AND name NOT LIKE 'sqlite_%'' @ [CHR 0x27])")
    case None
    with Some show ?thesis by (simp add: SqliteEngine_getSchema_def)
  next
    case res: (Some rs)
    show ?thesis
    proof (cases rs)
      case Nil
      with Some res show ?thesis by (simp add: SqliteEngine_getSchema_def)
    next
      case (Cons r rest)
      show ?thesis
      proof (cases "sqliteTables db (concat (xvalues r)) []")
        case None
        with Some res Cons show ?thesis by (simp add: SqliteEngine_getSchema_def)
      next
        case ts: (Some ts)
        from sqliteTables_consistent [OF ts] have "\<forall>t\<in>set ts. \<forall>c\<in>set (tcolumns t). fkConsistent c"
          by simp
        with Some res Cons ts show ?thesis by (simp add: SqliteEngine_getSchema_def)
      qed
    qed
  qed
qed

lemma mongo_consistent:
  "\<forall>t\<in>set (tables MongoEngine_getSchema). \<forall>c\<in>set (tcolumns t). fkConsistent c"
  by code_simp


text \<open>
  Claim C7. In every table of a schema produced by the embedded engine's introspection,
  by remote schema discovery (when it returns) or by the document-store engine, a column
  is marked as a foreign key if and only if it carries a reference. The first two build
  both fields from the same lookup; the document-store engine never sets a reference,
  and none of the columns of its four collections is marked.
\<close>

theorem foreign_key_iff_references:
  "(\<forall>t\<in>set (tables (SqliteEngine_getSchema inst)). \<forall>c\<in>set (tcolumns t).
      isForeignKey c = (references c \<noteq> None)) \<and>
   (getRemoteDatabaseSchema send credential = Inr schema \<longrightarrow>
      (\<forall>t\<in>set (tables schema). \<forall>c\<in>set (tcolumns t).
         isForeignKey c = (references c \<noteq> None))) \<and>
   (\<forall>t\<in>set (tables MongoEngine_getSchema). \<forall>c\<in>set (tcolumns t).
      isForeignKey c = (references c \<noteq> None))"
  using embedded_consistent [of inst] remote_consistent [of send credential schema]
    mongo_consistent
  by (simp add: fkConsistent_def)

text \<open>
  The witness: the sample database read by the embedded engine and through the bridge,
  whose orders table has a plain column and a foreign-key column, and the first column
  of the document store's users collection.
\<close>

theorem foreign_key_iff_references_witness:
  "SqliteEngine_getSchema (Some sampleDatabase) = sampleSchema \<and>
   getRemoteDatabaseSchema (Some sqliteBridge) sqliteCredential = Inr sampleSchema \<and>
   \<lparr>tname = JStr ''orders'', tcolumns = [idColumn, userIdColumn]\<rparr> \<in> set (tables sampleSchema) \<and>
   isForeignKey userIdColumn = (references userIdColumn \<noteq> None) \<and>
   isForeignKey userIdColumn \<and>
   isForeignKey idColumn = (references idColumn \<noteq> None) \<and>
   \<not> isForeignKey idColumn \<and>
   hd (tables MongoEngine_getSchema) \<in> set (tables MongoEngine_getSchema) \<and>
   hd (tcolumns (hd (tables MongoEngine_getSchema)))
     \<in> set (tcolumns (hd (tables MongoEngine_getSchema))) \<and>
   isForeignKey (hd (tcolumns (hd (tables MongoEngine_getSchema))))
     = (references (hd (tcolumns (hd (tables MongoEngine_getSchema)))) \<noteq> None) \<and>
   name (hd (tcolumns (hd (tables MongoEngine_getSchema)))) = ''_id''"
proof -
  let ?orders = "\<lparr>tname = JStr ''orders'', tcolumns = [idColumn, userIdColumn]\<rparr>"
  let ?users = "hd (tables MongoEngine_getSchema)"
  have e: "SqliteEngine_getSchema (Some sampleDatabase) = sampleSchema" by code_simp
  have r: "getRemoteDatabaseSchema (Some sqliteBridge) sqliteCredential = Inr sampleSchema"
    by code_simp
  have m: "?orders \<in> set (tables sampleSchema)" by (simp add: sampleSchema_def)
  have u: "isForeignKey userIdColumn" by (simp add: userIdColumn_def)
  have i: "\<not> isForeignKey idColumn" by (simp add: idColumn_def)
  have g1: "?users \<in> set (tables MongoEngine_getSchema)" by code_simp
  have g2: "hd (tcolumns ?users) \<in> set (tcolumns ?users)" by code_simp
  have g3: "name (hd (tcolumns ?users)) = ''_id''" by code_simp
  note inv = foreign_key_iff_references [of "Some sampleDatabase" "Some sqliteBridge"
      sqliteCredential sampleSchema]
  from inv e m have a: "\<forall>c\<in>set (tcolumns ?orders). isForeignKey c = (references c \<noteq> None)"
    by simp
  from inv r m have b: "\<forall>c\<in>set (tcolumns ?orders). isForeignKey c = (references c \<noteq> None)"
    by blast
  from inv g1 g2 have c: "isForeignKey (hd (tcolumns ?users))
                            = (references (hd (tcolumns ?users)) \<noteq> None)"
    by blast
  from a b have d: "isForeignKey userIdColumn = (references userIdColumn \<noteq> None)"
                   "isForeignKey idColumn = (references idColumn \<noteq> None)"
    by simp_all
  show ?thesis
    using e r m u i g1 g2 g3 c d by blast
qed

section \<open>Remote schema discovery under query errors\<close>

















end
